theory Spec2Isabelle
  imports Complex_Main
begin

section \<open>Balanced POD engine (src/bpod.py)\<close>

text \<open>
  The class \<^verbatim>\<open>BPOD\<close> of \<^verbatim>\<open>src/bpod.py\<close> is embedded as a record of its data members and
  one function per method. A method takes the object and returns it updated, together
  with the exception it raised, if any. The arrays it handles are numpy arrays, kept here
  as a shape and the row-major list of the entries; the scalars are any semiring,
  and the elementwise power \<^verbatim>\<open>** -0.5\<close> is a parameter \<open>pw\<close> of the two methods using it.
\<close>

subsection \<open>Exceptions and results\<close>

datatype exn =
    UndefinedError string  \<comment> \<open>\<^verbatim>\<open>util.UndefinedError\<close>\<close>
  | NameError string       \<comment> \<open>a name that is not bound in the module\<close>
  | ValueError string      \<comment> \<open>raised by numpy\<close>
  | LinAlgError string     \<comment> \<open>raised by the factorization\<close>
  | IOError string         \<comment> \<open>raised by an injected matrix reader\<close>
  | TypeError string       \<comment> \<open>calling \<^verbatim>\<open>None\<close>\<close>

datatype 's res = Return 's | Raise exn 's

fun state_of :: "'s res \<Rightarrow> 's" where
  "state_of (Return s) = s"
| "state_of (Raise e s) = s"

fun is_Return :: "'s res \<Rightarrow> bool" where
  "is_Return (Return s) = True"
| "is_Return (Raise e s) = False"

fun raised :: "'s res \<Rightarrow> exn option" where
  "raised (Return s) = None"
| "raised (Raise e s) = Some e"

fun bind_res :: "'s res \<Rightarrow> ('s \<Rightarrow> 's res) \<Rightarrow> 's res" where
  "bind_res (Return s) f = f s"
| "bind_res (Raise e s) f = Raise e s"

subsection \<open>The numpy arrays the engine handles\<close>

record 'a ndarray =
  shape :: "nat list"
  data :: "'a list"

definition ndim :: "'a ndarray \<Rightarrow> nat" where
  "ndim a = length (shape a)"

text \<open>The entries of an \<open>r\<close> by \<open>c\<close> table, row after row.\<close>

definition tabulate2 :: "nat \<Rightarrow> nat \<Rightarrow> (nat \<Rightarrow> nat \<Rightarrow> 'a) \<Rightarrow> 'a list" where
  "tabulate2 r c f = concat (map (\<lambda>i. map (\<lambda>j. f i j) [0..<c]) [0..<r])"

definition matrix :: "nat \<Rightarrow> nat \<Rightarrow> (nat \<Rightarrow> nat \<Rightarrow> 'a) \<Rightarrow> 'a ndarray" where
  "matrix r c f = \<lparr>shape = [r, c], data = tabulate2 r c f\<rparr>"

definition vector :: "'a list \<Rightarrow> 'a ndarray" where
  "vector xs = \<lparr>shape = [length xs], data = xs\<rparr>"

text \<open>\<^verbatim>\<open>a[i, j]\<close> of a two-dimensional array.\<close>

definition entry :: "'a ndarray \<Rightarrow> nat \<Rightarrow> nat \<Rightarrow> 'a" where
  "entry a i j = data a ! (i * (shape a ! 1) + j)"

text \<open>\<^verbatim>\<open>N.array(a)\<close> of an array or matrix: the same entries in the same shape.\<close>

definition N_array :: "'a ndarray \<Rightarrow> 'a ndarray" where
  "N_array a = a"

text \<open>\<^verbatim>\<open>N.squeeze(a)\<close> removes every axis of length one and keeps the entries.\<close>

definition N_squeeze :: "'a ndarray \<Rightarrow> 'a ndarray" where
  "N_squeeze a = a\<lparr>shape := filter (\<lambda>d. d \<noteq> 1) (shape a)\<rparr>"

text \<open>
  \<^verbatim>\<open>N.mat(a)\<close>: a matrix has two axes; a scalar becomes 1 by 1, a sequence of \<open>n\<close>
  entries a row of \<open>n\<close>, and two axes are kept. Of more than two axes those longer than
  one are kept: two of them are the matrix, fewer are treated as a scalar or a sequence
  is, and more are refused; so is a new shape that does not hold the same number of
  entries.
\<close>

definition N_mat :: "'a ndarray \<Rightarrow> exn + 'a ndarray" where
  "N_mat a =
     (case shape a of
        [] \<Rightarrow> Inr (a\<lparr>shape := [1, 1]\<rparr>)
      | [n] \<Rightarrow> Inr (a\<lparr>shape := [1, n]\<rparr>)
      | [r, c] \<Rightarrow> Inr a
      | _ \<Rightarrow>
          (case (case filter (\<lambda>d. 1 < d) (shape a) of
                   [] \<Rightarrow> Some [1, 1]
                 | [n] \<Rightarrow> Some [1, n]
                 | [r, c] \<Rightarrow> Some [r, c]
                 | _ \<Rightarrow> None) of
             None \<Rightarrow> Inl (ValueError ''shape too large to be a matrix.'')
           | Some sh \<Rightarrow>
               if prod_list sh = prod_list (shape a) then Inr (a\<lparr>shape := sh\<rparr>)
               else Inl (ValueError ''total size of new array must be unchanged'')))"

text \<open>
  \<^verbatim>\<open>N.diag(v)\<close>: of a sequence, the square matrix with it on the diagonal; of a
  two-dimensional array, its diagonal as a sequence; anything else is refused.
\<close>

definition N_diag :: "'a::zero ndarray \<Rightarrow> exn + 'a ndarray" where
  "N_diag v =
     (case shape v of
        [n] \<Rightarrow> Inr (matrix n n (\<lambda>i j. if i = j then data v ! i else 0))
      | [r, c] \<Rightarrow> Inr (vector (map (\<lambda>i. data v ! (i * c + i)) [0..<min r c]))
      | _ \<Rightarrow> Inl (ValueError ''Input must be 1- or 2-d.''))"

text \<open>
  \<^verbatim>\<open>a ** -0.5\<close> on an array: the power \<open>pw\<close> of every entry, in the same shape. The
  stored singular values are an array, as \<^verbatim>\<open>N.array\<close> in \<^verbatim>\<open>load_decomp\<close> and in
  \<^verbatim>\<open>compute_adjoint_modes\<close> leaves them; on a \<^verbatim>\<open>numpy.matrix\<close>, which this embedding
  does not tell from an array, \<^verbatim>\<open>**\<close> would be the matrix power.
\<close>

definition power_elems :: "('a \<Rightarrow> 'a) \<Rightarrow> 'a ndarray \<Rightarrow> 'a ndarray" where
  "power_elems pw a = a\<lparr>data := map pw (data a)\<rparr>"

text \<open>\<^verbatim>\<open>A * B\<close> of two matrices: the matrix product, refused when the inner sizes differ.\<close>

definition mat_mul :: "'a::semiring_0 ndarray \<Rightarrow> 'a ndarray \<Rightarrow> exn + 'a ndarray" where
  "mat_mul A B =
     (case (shape A, shape B) of
        ([r, k], [k', c]) \<Rightarrow>
          if k = k'
          then Inr (matrix r c
                 (\<lambda>i j. sum_list (map (\<lambda>l. data A ! (i * k + l) * data B ! (l * c + j)) [0..<k])))
          else Inl (ValueError ''objects are not aligned'')
      | _ \<Rightarrow> Inl (ValueError ''matrix must be 2-dimensional''))"

subsection \<open>The engine and its collaborators\<close>

type_synonym path = string

text \<open>An injected callable whose effect is outside the engine is known by its name.\<close>

type_synonym callable = string

text \<open>
  Modelled from the spec: the class of \<^verbatim>\<open>self.mpi\<close>, the distributed runtime, is not among
  the sources. It tells the rank of this worker, the coordinator being the worker of rank
  zero, and whether the run has several workers (\<^verbatim>\<open>self.mpi.parallel\<close>, also read as
  \<^verbatim>\<open>self.mpi.isParallel()\<close>).
\<close>

record runtime =
  rank :: nat
  parallel :: bool

definition isRankZero :: "runtime \<Rightarrow> bool" where
  "isRankZero m = (rank m = 0)"

definition isParallel :: "runtime \<Rightarrow> bool" where
  "isParallel m = parallel m"

text \<open>The calls a worker makes to its collaborators, in the order it makes them.\<close>

datatype 'a call =
    SaveMat callable "'a ndarray option" path
      \<comment> \<open>\<^verbatim>\<open>self.save_mat(mat, path)\<close>\<close>
  | LoadMat "path option"
      \<comment> \<open>\<^verbatim>\<open>self.load_mat(path)\<close>\<close>
  | InnerProductMatrix "path list" "path list"
      \<comment> \<open>\<^verbatim>\<open>self.compute_inner_product_matrix(rowPaths, colPaths)\<close>\<close>
  | ComputeModes "int list" path "path list option" "'a ndarray" int
      \<comment> \<open>\<^verbatim>\<open>self._compute_modes(modeNumList, modePath, snapPaths, buildCoeffMat, indexFrom)\<close>\<close>

text \<open>
  The data members of \<^verbatim>\<open>BPOD\<close>. A member that may be \<^verbatim>\<open>None\<close> is an option.
  \<open>calls\<close> is not a member: it records the calls made to the collaborators.
\<close>

record ('a, 'f) BPOD =
  mpi :: runtime
  load_field :: "path \<Rightarrow> 'f"
  inner_product :: "'f \<Rightarrow> 'f \<Rightarrow> 'a"
  save_mat :: "callable option"
  load_mat :: "(path option \<Rightarrow> exn + 'a ndarray) option"
  directSnapPaths :: "path list option"
  adjointSnapPaths :: "path list option"
  LSingVecs :: "'a ndarray option"
  singVals :: "'a ndarray option"
  RSingVecs :: "'a ndarray option"
  hankelMat :: "'a ndarray option"
  calls :: "'a call list"

definition called :: "'a call \<Rightarrow> ('a, 'f) BPOD \<Rightarrow> ('a, 'f) BPOD" where
  "called c self = self\<lparr>calls := calls self @ [c]\<rparr>"

text \<open>
  Modelled from the spec: \<^verbatim>\<open>compute_inner_product_matrix\<close> is a method of the base class
  \<^verbatim>\<open>ModalDecomp\<close>, which is not among the sources. Given two ordered lists of snapshot
  paths, it returns the matrix of pairwise inner products of the loaded fields, and it
  returns it to every worker that calls it.
\<close>

definition compute_inner_product_matrix ::
  "('a, 'f) BPOD \<Rightarrow> path list \<Rightarrow> path list \<Rightarrow> 'a ndarray" where
  "compute_inner_product_matrix self rowPaths colPaths =
     matrix (length rowPaths) (length colPaths)
       (\<lambda>i j. inner_product self (load_field self (rowPaths ! i)) (load_field self (colPaths ! j)))"

subsection \<open>\<^verbatim>\<open>load_decomp\<close>\<close>

text \<open>One \<^verbatim>\<open>self.X = f(self.load_mat(path))\<close>: the call is made, and what it raises is raised.\<close>

definition load_into ::
  "('a ndarray \<Rightarrow> ('a, 'f) BPOD \<Rightarrow> ('a, 'f) BPOD) \<Rightarrow> (path option \<Rightarrow> exn + 'a ndarray)
     \<Rightarrow> path option \<Rightarrow> ('a, 'f) BPOD \<Rightarrow> ('a, 'f) BPOD res" where
  "load_into assign lm p self =
     (case lm p of
        Inl e \<Rightarrow> Raise e (called (LoadMat p) self)
      | Inr m \<Rightarrow> Return (assign m (called (LoadMat p) self)))"

text \<open>
  Lines 57 to 68, what a worker does before the broadcasts. The name \<^verbatim>\<open>UndefinedError\<close>
  of line 60 is not bound in the module (only \<^verbatim>\<open>util.UndefinedError\<close> is), so the
  \<^verbatim>\<open>raise\<close> stops with a \<^verbatim>\<open>NameError\<close>. \<^verbatim>\<open>hankelMatPath\<close> is not used.
\<close>

definition load_decomp_local ::
  "path option \<Rightarrow> path option \<Rightarrow> path option \<Rightarrow> path option
     \<Rightarrow> (path option \<Rightarrow> exn + 'a ndarray) option \<Rightarrow> ('a, 'f) BPOD \<Rightarrow> ('a, 'f) BPOD res" where
  "load_decomp_local hankelMatPath LSingVecsPath singValsPath RSingVecsPath load_mat_arg self0 =
     (let self1 = (case load_mat_arg of None \<Rightarrow> self0 | Some f \<Rightarrow> self0\<lparr>load_mat := Some f\<rparr>)
      in case load_mat self1 of
           None \<Rightarrow> Raise (NameError ''UndefinedError'') self1
         | Some lm \<Rightarrow>
             if isRankZero (mpi self1) then
               bind_res (load_into (\<lambda>m s. s\<lparr>LSingVecs := Some m\<rparr>) lm LSingVecsPath self1) (\<lambda>s.
               bind_res (load_into (\<lambda>m s. s\<lparr>singVals := Some (N_squeeze (N_array m))\<rparr>) lm singValsPath s) (\<lambda>s.
               load_into (\<lambda>m s. s\<lparr>RSingVecs := Some m\<rparr>) lm RSingVecsPath s))
             else Return (self1\<lparr>LSingVecs := None, singVals := None, RSingVecs := None\<rparr>))"

subsection \<open>The workers of a run\<close>

text \<open>
  Modelled from the spec: the broadcast of the distributed runtime, which is not among the
  sources. A run is the list of its workers' engines in rank order, every worker executing
  the same call. \<^verbatim>\<open>self.X = self.mpi.comm.bcast(self.Y, root=0)\<close> is executed by all of
  them together: every worker whose guard lets it take part receives what the worker of
  rank zero passed.
\<close>

definition comm_bcast ::
  "(('a, 'f) BPOD \<Rightarrow> bool) \<Rightarrow> (('a, 'f) BPOD \<Rightarrow> 'v) \<Rightarrow> ('v \<Rightarrow> ('a, 'f) BPOD \<Rightarrow> ('a, 'f) BPOD)
     \<Rightarrow> ('a, 'f) BPOD list \<Rightarrow> ('a, 'f) BPOD list" where
  "comm_bcast guard arg assign ws =
     (case ws of
        [] \<Rightarrow> []
      | w0 # _ \<Rightarrow> map (\<lambda>self. if guard self then assign (arg w0) self else self) ws)"

text \<open>
  A run that gets through its broadcasts is \<open>Done\<close>, with the result of every worker.
  When a worker raised before a broadcast in which another worker waits, the broadcast
  never completes: the run is \<open>Stalled\<close>, with every worker as it was then. Workers
  that take no part in the broadcasts go on alone.
\<close>

datatype 's run = Done "'s res list" | Stalled "'s res list"

fun results :: "'s run \<Rightarrow> 's res list" where
  "results (Done rs) = rs"
| "results (Stalled rs) = rs"

definition spmd ::
  "('a, 'f) BPOD res list \<Rightarrow> (('a, 'f) BPOD list \<Rightarrow> ('a, 'f) BPOD list)
     \<Rightarrow> (('a, 'f) BPOD \<Rightarrow> ('a, 'f) BPOD res) \<Rightarrow> ('a, 'f) BPOD run" where
  "spmd rs bcasts rest =
     (if list_all is_Return rs then Done (map rest (bcasts (map state_of rs)))
      else if list_ex (\<lambda>r. is_Return r \<and> parallel (mpi (state_of r))) rs then Stalled rs
      else Done (map (\<lambda>r. bind_res r rest) rs))"

text \<open>
  Lines 69 to 72, under the guard \<^verbatim>\<open>if self.mpi.parallel\<close>. Line 72 passes
  \<^verbatim>\<open>self.LSingVecs\<close> and assigns \<^verbatim>\<open>self.RSingVecs\<close>.
\<close>

definition load_decomp_bcast :: "('a, 'f) BPOD list \<Rightarrow> ('a, 'f) BPOD list" where
  "load_decomp_bcast ws =
     (let guard = (\<lambda>self. parallel (mpi self));
          ws1 = comm_bcast guard LSingVecs (\<lambda>v s. s\<lparr>LSingVecs := v\<rparr>) ws;
          ws2 = comm_bcast guard singVals (\<lambda>v s. s\<lparr>singVals := v\<rparr>) ws1
      in comm_bcast guard LSingVecs (\<lambda>v s. s\<lparr>RSingVecs := v\<rparr>) ws2)"

definition load_decomp ::
  "path option \<Rightarrow> path option \<Rightarrow> path option \<Rightarrow> path option
     \<Rightarrow> (path option \<Rightarrow> exn + 'a ndarray) option \<Rightarrow> ('a, 'f) BPOD list \<Rightarrow> ('a, 'f) BPOD run" where
  "load_decomp hankelMatPath LSingVecsPath singValsPath RSingVecsPath load_mat_arg ws =
     spmd (map (load_decomp_local hankelMatPath LSingVecsPath singValsPath RSingVecsPath
                  load_mat_arg) ws)
       load_decomp_bcast Return"

subsection \<open>\<^verbatim>\<open>save_decomp\<close>\<close>

text \<open>
  \<^verbatim>\<open>self.save_mat(mat, path)\<close>: the call is recorded, and the writer is taken to return.
  Calling \<^verbatim>\<open>None\<close> is a \<^verbatim>\<open>TypeError\<close>.
\<close>

definition call_save_mat ::
  "'a ndarray option \<Rightarrow> path \<Rightarrow> ('a, 'f) BPOD \<Rightarrow> ('a, 'f) BPOD res" where
  "call_save_mat mat p self =
     (case save_mat self of
        None \<Rightarrow> Raise (TypeError ''NoneType object is not callable'') self
      | Some f \<Rightarrow> Return (called (SaveMat f mat p) self))"

definition save_if_given ::
  "(('a, 'f) BPOD \<Rightarrow> 'a ndarray option) \<Rightarrow> path option \<Rightarrow> ('a, 'f) BPOD \<Rightarrow> ('a, 'f) BPOD res" where
  "save_if_given member p self =
     (case p of None \<Rightarrow> Return self | Some q \<Rightarrow> call_save_mat (member self) q self)"

definition save_decomp ::
  "path option \<Rightarrow> path option \<Rightarrow> path option \<Rightarrow> path option
     \<Rightarrow> ('a, 'f) BPOD \<Rightarrow> ('a, 'f) BPOD res" where
  "save_decomp hankelMatPath LSingVecsPath singValsPath RSingVecsPath self =
     (if save_mat self = None \<and> isRankZero (mpi self)
      then Raise (UndefinedError ''save_mat is undefined, cant save'') self
      else if isRankZero (mpi self) then
        bind_res (save_if_given hankelMat hankelMatPath self) (\<lambda>s.
        bind_res (save_if_given LSingVecs LSingVecsPath s) (\<lambda>s.
        bind_res (save_if_given RSingVecs RSingVecsPath s) (\<lambda>s.
        save_if_given singVals singValsPath s)))
      else Return self)"

subsection \<open>\<^verbatim>\<open>compute_decomp\<close>\<close>

text \<open>
  Lines 103 to 122, what a worker does before the broadcasts. \<open>svd\<close> is \<^verbatim>\<open>util.svd\<close>,
  which is not among the sources: it is a parameter, and it may raise.
\<close>

definition compute_decomp_local ::
  "('a ndarray \<Rightarrow> exn + 'a ndarray \<times> 'a ndarray \<times> 'a ndarray)
     \<Rightarrow> path list option \<Rightarrow> path list option \<Rightarrow> ('a, 'f) BPOD \<Rightarrow> ('a, 'f) BPOD res" where
  "compute_decomp_local svd directSnapPaths_arg adjointSnapPaths_arg self0 =
     (let self1 = (case directSnapPaths_arg of None \<Rightarrow> self0
                   | Some d \<Rightarrow> self0\<lparr>directSnapPaths := Some d\<rparr>);
          self2 = (case adjointSnapPaths_arg of None \<Rightarrow> self1
                   | Some a \<Rightarrow> self1\<lparr>adjointSnapPaths := Some a\<rparr>)
      in case directSnapPaths self2 of
           None \<Rightarrow> Raise (UndefinedError ''directSnapPaths is not given'') self2
         | Some dps \<Rightarrow>
            (case adjointSnapPaths self2 of
               None \<Rightarrow> Raise (UndefinedError ''adjointSnapPaths is not given'') self2
             | Some aps \<Rightarrow>
                 let H = compute_inner_product_matrix self2 aps dps;
                     self3 = (called (InnerProductMatrix aps dps) self2)\<lparr>hankelMat := Some H\<rparr>
                 in if isRankZero (mpi self3) then
                      (case svd H of
                         Inl e \<Rightarrow> Raise e self3
                       | Inr (L, sv, R) \<Rightarrow>
                           Return (self3\<lparr>LSingVecs := Some L, singVals := Some sv,
                                     RSingVecs := Some R\<rparr>))
                    else Return (self3\<lparr>LSingVecs := None, RSingVecs := None,
                                   singVals := None\<rparr>)))"

text \<open>Lines 123 to 126, under the guard \<^verbatim>\<open>if self.mpi.isParallel()\<close>.\<close>

definition compute_decomp_bcast :: "('a, 'f) BPOD list \<Rightarrow> ('a, 'f) BPOD list" where
  "compute_decomp_bcast ws =
     (let guard = (\<lambda>self. isParallel (mpi self));
          ws1 = comm_bcast guard LSingVecs (\<lambda>v s. s\<lparr>LSingVecs := v\<rparr>) ws;
          ws2 = comm_bcast guard singVals (\<lambda>v s. s\<lparr>singVals := v\<rparr>) ws1
      in comm_bcast guard RSingVecs (\<lambda>v s. s\<lparr>RSingVecs := v\<rparr>) ws2)"

definition compute_decomp ::
  "('a ndarray \<Rightarrow> exn + 'a ndarray \<times> 'a ndarray \<times> 'a ndarray)
     \<Rightarrow> path option \<Rightarrow> path option \<Rightarrow> path option \<Rightarrow> path option
     \<Rightarrow> path list option \<Rightarrow> path list option \<Rightarrow> ('a, 'f) BPOD list \<Rightarrow> ('a, 'f) BPOD run" where
  "compute_decomp svd hankelMatPath LSingVecsPath singValsPath RSingVecsPath
       directSnapPaths_arg adjointSnapPaths_arg ws =
     spmd (map (compute_decomp_local svd directSnapPaths_arg adjointSnapPaths_arg) ws)
       compute_decomp_bcast
       (save_decomp hankelMatPath LSingVecsPath singValsPath RSingVecsPath)"

subsection \<open>Mode reconstruction\<close>

text \<open>
  \<^verbatim>\<open>N.mat(V) * N.mat(N.diag(sv ** -0.5))\<close>, the left operand first; the first numpy call
  that refuses its argument decides the exception. The call of \<^verbatim>\<open>self._compute_modes\<close>,
  a method of the base class, is recorded with its arguments and taken to return.
\<close>

definition buildCoeffMat ::
  "('a \<Rightarrow> 'a) \<Rightarrow> 'a::semiring_0 ndarray \<Rightarrow> 'a ndarray \<Rightarrow> exn + 'a ndarray" where
  "buildCoeffMat pw V sv =
     (case N_mat V of
        Inl e \<Rightarrow> Inl e
      | Inr A \<Rightarrow>
         (case N_diag (power_elems pw sv) of
            Inl e \<Rightarrow> Inl e
          | Inr D \<Rightarrow> (case N_mat D of Inl e \<Rightarrow> Inl e | Inr B \<Rightarrow> mat_mul A B)))"

definition compute_direct_modes ::
  "('a \<Rightarrow> 'a) \<Rightarrow> int list \<Rightarrow> path \<Rightarrow> int \<Rightarrow> path list option
     \<Rightarrow> ('a::semiring_0, 'f) BPOD \<Rightarrow> ('a, 'f) BPOD res" where
  "compute_direct_modes pw modeNumList modePath indexFrom directSnapPaths_arg self0 =
     (case RSingVecs self0 of
        None \<Rightarrow> Raise (UndefinedError ''Must define self.RSingVecs'') self0
      | Some R \<Rightarrow>
         (case singVals self0 of
            None \<Rightarrow> Raise (UndefinedError ''Must define self.singVals'') self0
          | Some sv \<Rightarrow>
              let self1 = (case directSnapPaths_arg of None \<Rightarrow> self0
                           | Some d \<Rightarrow> self0\<lparr>directSnapPaths := Some d\<rparr>)
              in (case buildCoeffMat pw R sv of
                    Inl e \<Rightarrow> Raise e self1
                  | Inr C \<Rightarrow>
                      Return (called (ComputeModes modeNumList modePath (directSnapPaths self1)
                                        C indexFrom) self1))))"

text \<open>
  In \<^verbatim>\<open>compute_adjoint_modes\<close> the name \<^verbatim>\<open>UndefinedError\<close> of lines 177 and 179 is not
  bound in the module, as in \<^verbatim>\<open>load_decomp\<close>. Line 182 stores the squeezed singular
  values before the coefficients are built.
\<close>

definition compute_adjoint_modes ::
  "('a \<Rightarrow> 'a) \<Rightarrow> int list \<Rightarrow> path \<Rightarrow> int \<Rightarrow> path list option
     \<Rightarrow> ('a::semiring_0, 'f) BPOD \<Rightarrow> ('a, 'f) BPOD res" where
  "compute_adjoint_modes pw modeNumList modePath indexFrom adjointSnapPaths_arg self0 =
     (case LSingVecs self0 of
        None \<Rightarrow> Raise (NameError ''UndefinedError'') self0
      | Some L \<Rightarrow>
         (case singVals self0 of
            None \<Rightarrow> Raise (NameError ''UndefinedError'') self0
          | Some sv0 \<Rightarrow>
              let self1 = (case adjointSnapPaths_arg of None \<Rightarrow> self0
                           | Some a \<Rightarrow> self0\<lparr>adjointSnapPaths := Some a\<rparr>);
                  sv = N_squeeze (N_array sv0);
                  self2 = self1\<lparr>singVals := Some sv\<rparr>
              in (case buildCoeffMat pw L sv of
                    Inl e \<Rightarrow> Raise e self2
                  | Inr C \<Rightarrow>
                      Return (called (ComputeModes modeNumList modePath (adjointSnapPaths self2)
                                        C indexFrom) self2))))"


subsection \<open>A run is well formed\<close>

text \<open>
  The workers stand in rank order, and the run is parallel exactly when it has more than
  one worker.
\<close>

definition mpi_world :: "('a, 'f) BPOD list \<Rightarrow> bool" where
  "mpi_world ws =
     (ws \<noteq> [] \<and> map (\<lambda>s. rank (mpi s)) ws = [0..<length ws]
      \<and> list_all (\<lambda>s. parallel (mpi s) = (1 < length ws)) ws)"

subsection \<open>Example data\<close>

text \<open>
  Fields are vectors of two reals and the inner product is the dot product. The direct
  snapshots are \<open>d1 = [1,0]\<close> and \<open>d2 = [0,1]\<close>, the adjoint ones \<open>a1 = [4,0]\<close>,
  \<open>a2 = [0,1]\<close> and \<open>a3 = [0,0]\<close>, so that the Hankel matrix is 3 by 2 with singular
  values 4 and 1.
\<close>

definition example_field :: "path \<Rightarrow> real list" where
  "example_field p =
     (if p = ''d1'' then [1, 0] else if p = ''d2'' then [0, 1]
      else if p = ''a1'' then [4, 0] else if p = ''a2'' then [0, 1]
      else [0, 0])"

definition dot :: "real list \<Rightarrow> real list \<Rightarrow> real" where
  "dot x y = sum_list (map2 (*) x y)"

definition example_H :: "real ndarray" where
  "example_H = \<lparr>shape = [3, 2], data = [4, 0, 0, 1, 0, 0]\<rparr>"

definition example_L :: "real ndarray" where
  "example_L = \<lparr>shape = [3, 2], data = [1, 0, 0, 1, 0, 0]\<rparr>"

definition example_S :: "real ndarray" where
  "example_S = \<lparr>shape = [2], data = [4, 1]\<rparr>"

definition example_R :: "real ndarray" where
  "example_R = \<lparr>shape = [2, 2], data = [1, 0, 0, 1]\<rparr>"

text \<open>A factorization routine that knows the example and gives up on anything else.\<close>

definition example_svd :: "real ndarray \<Rightarrow> exn + real ndarray \<times> real ndarray \<times> real ndarray" where
  "example_svd H =
     (if H = example_H then Inr (example_L, example_S, example_R)
      else Inl (LinAlgError ''SVD did not converge''))"

text \<open>
  A matrix reader over four persisted files; the singular values are persisted as a
  column. A fifth file holds them as a diagonal matrix.
\<close>

definition example_load_mat :: "path option \<Rightarrow> exn + real ndarray" where
  "example_load_mat p =
     (case p of
        None \<Rightarrow> Inl (IOError ''no path'')
      | Some q \<Rightarrow>
          if q = ''hankelMat.txt'' then Inr example_H
          else if q = ''LSingVecs.txt'' then Inr example_L
          else if q = ''singVals.txt'' then Inr \<lparr>shape = [2, 1], data = [4, 1]\<rparr>
          else if q = ''RSingVecs.txt'' then Inr example_R
          else if q = ''singValsDiag.txt'' then Inr \<lparr>shape = [2, 2], data = [4, 0, 0, 1]\<rparr>
          else Inl (IOError ''no such file''))"

text \<open>A freshly constructed engine on the worker of the given rank.\<close>

definition worker :: "nat \<Rightarrow> bool \<Rightarrow> (real, real list) BPOD" where
  "worker r par =
     \<lparr>mpi = \<lparr>rank = r, parallel = par\<rparr>,
      load_field = example_field, inner_product = dot,
      save_mat = Some ''save_mat_text'', load_mat = Some example_load_mat,
      directSnapPaths = None, adjointSnapPaths = None,
      LSingVecs = None, singVals = None, RSingVecs = None, hankelMat = None,
      calls = []\<rparr>"


text \<open>
  The decomposition of one direct and one adjoint snapshot, \<open>d1\<close> and \<open>a1\<close>: the Hankel
  matrix is the 1 by 1 matrix \<open>[[4]]\<close>, with the single singular value 4.
\<close>

definition single_value :: "(real, real list) BPOD" where
  "single_value =
     (worker 0 False)
       \<lparr>directSnapPaths := Some [''d1''], adjointSnapPaths := Some [''a1''],
        LSingVecs := Some \<lparr>shape = [1, 1], data = [1]\<rparr>,
        singVals := Some \<lparr>shape = [1], data = [4]\<rparr>,
        RSingVecs := Some \<lparr>shape = [1, 1], data = [1]\<rparr>,
        hankelMat := Some \<lparr>shape = [1, 1], data = [4]\<rparr>\<rparr>"

text \<open>
  A matrix reader over the persisted decomposition of \<open>d1\<close> and \<open>a1\<close>: each of the four
  files holds a 1 by 1 matrix, the single singular value being persisted as a matrix of
  one row and one column.
\<close>

definition single_value_load_mat :: "path option \<Rightarrow> exn + real ndarray" where
  "single_value_load_mat p =
     (case p of
        None \<Rightarrow> Inl (IOError ''no path'')
      | Some q \<Rightarrow>
          if q = ''hankelMat.txt'' then Inr \<lparr>shape = [1, 1], data = [4]\<rparr>
          else if q = ''LSingVecs.txt'' then Inr \<lparr>shape = [1, 1], data = [1]\<rparr>
          else if q = ''singVals.txt'' then Inr \<lparr>shape = [1, 1], data = [4]\<rparr>
          else if q = ''RSingVecs.txt'' then Inr \<lparr>shape = [1, 1], data = [1]\<rparr>
          else Inl (IOError ''no such file''))"

text \<open>
  \<^verbatim>\<open>x ** -0.5\<close> on the positive reals. At zero and below, where floating point gives
  \<^verbatim>\<open>inf\<close> and \<^verbatim>\<open>nan\<close>, it stands for nothing in the program.
\<close>

definition inv_sqrt :: "real \<Rightarrow> real" where
  "inv_sqrt x = x powr (- (1 / 2))"

subsection \<open>Facts about tables\<close>

lemma length_tabulate2: "length (tabulate2 r c f) = r * c"
  by (induction r) (simp_all add: tabulate2_def)

lemma tabulate2_Suc:
  "tabulate2 (Suc r) c f = tabulate2 r c f @ map (\<lambda>j. f r j) [0..<c]"
  by (simp add: tabulate2_def)

lemma nth_tabulate2:
  "i < r \<Longrightarrow> j < c \<Longrightarrow> tabulate2 r c f ! (i * c + j) = f i j"
proof (induction r)
  case 0
  then show ?case by simp
next
  case (Suc r)
  show ?case
  proof (cases "i < r")
    case True
    then have "Suc i \<le> r" by simp
    then have "Suc i * c \<le> r * c" by (rule mult_le_mono1)
    with \<open>j < c\<close> have "i * c + j < r * c" by simp
    with Suc True show ?thesis
      by (simp add: tabulate2_Suc nth_append length_tabulate2)
  next
    case False
    with Suc.prems have "i = r" by simp
    with \<open>j < c\<close> show ?thesis
      by (simp add: tabulate2_Suc nth_append length_tabulate2)
  qed
qed

lemma tabulate2_cong:
  "(\<And>i j. i < r \<Longrightarrow> j < c \<Longrightarrow> f i j = g i j) \<Longrightarrow> tabulate2 r c f = tabulate2 r c g"
proof -
  assume h: "\<And>i j. i < r \<Longrightarrow> j < c \<Longrightarrow> f i j = g i j"
  have "map (\<lambda>i. map (\<lambda>j. f i j) [0..<c]) [0..<r] = map (\<lambda>i. map (\<lambda>j. g i j) [0..<c]) [0..<r]"
    by (rule map_cong[OF refl], rule map_cong[OF refl]) (simp add: h)
  then show ?thesis
    unfolding tabulate2_def by (rule arg_cong)
qed

lemma entry_matrix: "i < r \<Longrightarrow> j < c \<Longrightarrow> entry (matrix r c f) i j = f i j"
  by (simp add: entry_def matrix_def nth_tabulate2)

lemma sum_list_delta:
  fixes f :: "nat \<Rightarrow> 'a::semiring_0"
  assumes "j < k"
  shows "sum_list (map (\<lambda>l. f l * (if l = j then v else 0)) [0..<k]) = f j * v"
proof -
  have "sum_list (map (\<lambda>l. f l * (if l = j then v else 0)) [0..<k])
        = (\<Sum>l\<in>{0..<k}. f l * (if l = j then v else 0))"
    by (simp add: interv_sum_list_conv_sum_set_nat)
  also have "\<dots> = (\<Sum>l\<in>{0..<k}. if l = j then f l * v else 0)"
    by (rule sum.cong) simp_all
  also have "\<dots> = f j * v"
    using assms by simp
  finally show ?thesis .
qed

text \<open>A matrix times the diagonal matrix of a sequence scales each column.\<close>

lemma mat_mul_diag:
  fixes V :: "'a::semiring_0 ndarray"
  assumes V: "shape V = [r, n]" and w: "length w = n"
  shows "mat_mul V (matrix n n (\<lambda>i j. if i = j then w ! i else 0))
         = Inr (matrix r n (\<lambda>i j. data V ! (i * n + j) * w ! j))"
proof -
  have "tabulate2 r n (\<lambda>i j. sum_list (map (\<lambda>l. data V ! (i * n + l)
            * tabulate2 n n (\<lambda>i j. if i = j then w ! i else 0) ! (l * n + j)) [0..<n]))
        = tabulate2 r n (\<lambda>i j. data V ! (i * n + j) * w ! j)"
  proof (rule tabulate2_cong)
    fix i j
    assume "i < r" and j: "j < n"
    have "map (\<lambda>l. data V ! (i * n + l)
              * tabulate2 n n (\<lambda>i j. if i = j then w ! i else 0) ! (l * n + j)) [0..<n]
          = map (\<lambda>l. data V ! (i * n + l) * (if l = j then w ! j else 0)) [0..<n]"
      using j by (auto simp: nth_tabulate2)
    then have "sum_list (map (\<lambda>l. data V ! (i * n + l)
              * tabulate2 n n (\<lambda>i j. if i = j then w ! i else 0) ! (l * n + j)) [0..<n])
          = sum_list (map (\<lambda>l. data V ! (i * n + l) * (if l = j then w ! j else 0)) [0..<n])"
      by (rule arg_cong)
    also have "\<dots> = data V ! (i * n + j) * w ! j"
      using j by (rule sum_list_delta)
    finally show "sum_list (map (\<lambda>l. data V ! (i * n + l)
              * tabulate2 n n (\<lambda>i j. if i = j then w ! i else 0) ! (l * n + j)) [0..<n])
          = data V ! (i * n + j) * w ! j" .
  qed
  then show ?thesis
    using V by (simp add: mat_mul_def matrix_def)
qed

subsection \<open>Facts about results and runs\<close>

lemma bind_res_frame:
  "(\<And>s. g (state_of (f s)) = g s) \<Longrightarrow> g (state_of (bind_res r f)) = g (state_of r)"
  by (cases r) simp_all

lemma length_comm_bcast: "length (comm_bcast guard arg assign ws) = length ws"
  by (simp add: comm_bcast_def split: list.splits)

lemma comm_bcast_map:
  "comm_bcast guard arg assign ws
   = map (\<lambda>self. if guard self then assign (arg (ws ! 0)) self else self) ws"
  by (cases ws) (simp_all add: comm_bcast_def)

lemma nth_comm_bcast:
  "i < length ws \<Longrightarrow>
   comm_bcast guard arg assign ws ! i =
     (if guard (ws ! i) then assign (arg (ws ! 0)) (ws ! i) else ws ! i)"
  by (simp add: comm_bcast_map)

lemma results_spmd_Raise:
  assumes "i < length rs" and "rs ! i = Raise e s"
  shows "results (spmd rs bcasts rest) ! i = Raise e s"
proof -
  from assms have "Raise e s \<in> set rs" by (metis nth_mem)
  moreover have "\<not> is_Return (Raise e s)" by simp
  ultimately have "\<not> list_all is_Return rs" unfolding list_all_iff by blast
  with assms show ?thesis by (simp add: spmd_def)
qed

text \<open>What holds of a worker before the broadcasts and is kept by them and by the rest
  of the call holds of it at the end of the run.\<close>

lemma results_spmd_invariant:
  assumes i: "i < length rs"
    and len: "\<And>ws. length (bcasts ws) = length ws"
    and bc: "\<And>ws. i < length ws \<Longrightarrow> Q (ws ! i) \<Longrightarrow> Q (bcasts ws ! i)"
    and rest: "\<And>s. Q s \<Longrightarrow> Q (state_of (rest s))"
    and Q: "Q (state_of (rs ! i))"
  shows "Q (state_of (results (spmd rs bcasts rest) ! i))"
proof (cases "list_all is_Return rs")
  case True
  have "Q (map state_of rs ! i)" using i Q by simp
  then have "Q (bcasts (map state_of rs) ! i)" using i by (intro bc) simp_all
  then show ?thesis using True i by (simp add: spmd_def len rest)
next
  case False
  show ?thesis
  proof (cases "rs ! i")
    case (Return s)
    with False i Q show ?thesis by (auto simp: spmd_def rest)
  next
    case (Raise e s)
    with False i Q show ?thesis by (auto simp: spmd_def)
  qed
qed

lemma length_compute_decomp_bcast: "length (compute_decomp_bcast ws) = length ws"
  by (simp add: compute_decomp_bcast_def Let_def length_comm_bcast)

lemma length_load_decomp_bcast: "length (load_decomp_bcast ws) = length ws"
  by (simp add: load_decomp_bcast_def Let_def length_comm_bcast)

lemma compute_decomp_bcast_frame:
  assumes "i < length ws"
  shows "hankelMat (compute_decomp_bcast ws ! i) = hankelMat (ws ! i)"
    and "calls (compute_decomp_bcast ws ! i) = calls (ws ! i)"
    and "mpi (compute_decomp_bcast ws ! i) = mpi (ws ! i)"
    and "save_mat (compute_decomp_bcast ws ! i) = save_mat (ws ! i)"
  using assms
  by (simp_all add: compute_decomp_bcast_def Let_def nth_comm_bcast length_comm_bcast)

subsection \<open>Facts about \<^verbatim>\<open>save_decomp\<close>\<close>

lemma save_if_given_frame:
  "hankelMat (state_of (save_if_given member p self)) = hankelMat self"
  "LSingVecs (state_of (save_if_given member p self)) = LSingVecs self"
  "singVals (state_of (save_if_given member p self)) = singVals self"
  "RSingVecs (state_of (save_if_given member p self)) = RSingVecs self"
  "mpi (state_of (save_if_given member p self)) = mpi self"
  by (simp_all add: save_if_given_def call_save_mat_def called_def split: option.splits)

lemma save_decomp_frame:
  "hankelMat (state_of (save_decomp hp lp sp rp self)) = hankelMat self"
  "LSingVecs (state_of (save_decomp hp lp sp rp self)) = LSingVecs self"
  "singVals (state_of (save_decomp hp lp sp rp self)) = singVals self"
  "RSingVecs (state_of (save_decomp hp lp sp rp self)) = RSingVecs self"
  by (simp_all add: save_decomp_def bind_res_frame save_if_given_frame)

lemma save_if_given_configured:
  "save_mat self = Some f \<Longrightarrow>
   save_if_given member p self =
     Return (self\<lparr>calls := calls self
                @ (case p of None \<Rightarrow> [] | Some q \<Rightarrow> [SaveMat f (member self) q])\<rparr>)"
  by (simp add: save_if_given_def call_save_mat_def called_def split: option.splits)

lemma save_decomp_configured:
  assumes "save_mat self = Some f"
  shows "save_decomp hp lp sp rp self =
     Return (self\<lparr>calls := calls self @
       (if isRankZero (mpi self) then
          (case hp of None \<Rightarrow> [] | Some p \<Rightarrow> [SaveMat f (hankelMat self) p]) @
          (case lp of None \<Rightarrow> [] | Some p \<Rightarrow> [SaveMat f (LSingVecs self) p]) @
          (case rp of None \<Rightarrow> [] | Some p \<Rightarrow> [SaveMat f (RSingVecs self) p]) @
          (case sp of None \<Rightarrow> [] | Some p \<Rightarrow> [SaveMat f (singVals self) p])
        else [])\<rparr>)"
  using assms by (simp add: save_decomp_def save_if_given_configured split: option.splits)

lemma save_decomp_calls_extend:
  "\<exists>more. calls (state_of (save_decomp hp lp sp rp self)) = calls self @ more"
proof (cases "save_mat self")
  case None
  then show ?thesis by (simp add: save_decomp_def)
next
  case (Some f)
  then show ?thesis by (simp add: save_decomp_configured)
qed

subsection \<open>Facts about \<^verbatim>\<open>compute_decomp\<close>\<close>

lemma compute_decomp_local_hankel:
  assumes "directSnapPaths_arg = Some dps
           \<or> directSnapPaths_arg = None \<and> directSnapPaths self = Some dps"
    and "adjointSnapPaths_arg = Some aps
           \<or> adjointSnapPaths_arg = None \<and> adjointSnapPaths self = Some aps"
  shows "hankelMat (state_of (compute_decomp_local svd directSnapPaths_arg adjointSnapPaths_arg self))
         = Some (compute_inner_product_matrix self aps dps)"
    and "calls (state_of (compute_decomp_local svd directSnapPaths_arg adjointSnapPaths_arg self))
         = calls self @ [InnerProductMatrix aps dps]"
  using assms
  by (auto simp: compute_decomp_local_def Let_def called_def compute_inner_product_matrix_def
      split: option.splits sum.splits prod.splits)

lemma compute_decomp_local_unset:
  assumes "directSnapPaths_arg = None \<and> directSnapPaths self = None
           \<or> adjointSnapPaths_arg = None \<and> adjointSnapPaths self = None"
  shows "\<exists>s'. compute_decomp_local svd directSnapPaths_arg adjointSnapPaths_arg self =
            Raise (UndefinedError
                    (if directSnapPaths_arg = None \<and> directSnapPaths self = None
                     then ''directSnapPaths is not given''
                     else ''adjointSnapPaths is not given'')) s'
          \<and> calls s' = calls self \<and> hankelMat s' = hankelMat self
          \<and> LSingVecs s' = LSingVecs self \<and> singVals s' = singVals self
          \<and> RSingVecs s' = RSingVecs self"
  using assms
  by (auto simp: compute_decomp_local_def Let_def split: option.splits)

subsection \<open>Facts about \<^verbatim>\<open>load_decomp\<close> and about whole runs\<close>

lemma load_decomp_local_coordinator:
  assumes "isRankZero (mpi self)"
    and "(case load_mat_arg of None \<Rightarrow> load_mat self | Some f \<Rightarrow> Some f) = Some lm"
    and "lm LSingVecsPath = Inr Lm" and "lm singValsPath = Inr Sm" and "lm RSingVecsPath = Inr Rm"
  shows "load_decomp_local hankelMatPath LSingVecsPath singValsPath RSingVecsPath load_mat_arg self
         = Return (self\<lparr>load_mat := Some lm, LSingVecs := Some Lm,
                      singVals := Some (N_squeeze (N_array Sm)), RSingVecs := Some Rm,
                      calls := calls self
                        @ [LoadMat LSingVecsPath, LoadMat singValsPath, LoadMat RSingVecsPath]\<rparr>)"
  using assms
  by (cases self) (auto simp: load_decomp_local_def load_into_def called_def split: option.splits)

lemma load_decomp_local_Return_coordinator:
  assumes "load_decomp_local hankelMatPath LSingVecsPath singValsPath RSingVecsPath load_mat_arg self
           = Return s"
    and "isRankZero (mpi self)"
  shows "\<exists>lm Lm Sm Rm.
           (case load_mat_arg of None \<Rightarrow> load_mat self | Some f \<Rightarrow> Some f) = Some lm
         \<and> lm LSingVecsPath = Inr Lm \<and> lm singValsPath = Inr Sm \<and> lm RSingVecsPath = Inr Rm"
  using assms
  by (auto simp: load_decomp_local_def load_into_def called_def Let_def
      split: option.splits sum.splits)

lemma load_decomp_local_mpi:
  "mpi (state_of (load_decomp_local hankelMatPath LSingVecsPath singValsPath RSingVecsPath
                    load_mat_arg self)) = mpi self"
  by (auto simp: load_decomp_local_def load_into_def called_def Let_def
      split: option.splits sum.splits)

lemma comm_bcast_root:
  assumes "ws \<noteq> []" and "\<And>v s. g (assign v s) = g s"
  shows "g (comm_bcast guard arg assign ws ! 0) = g (ws ! 0)"
  using assms by (cases ws) (simp_all add: comm_bcast_def)

lemma load_decomp_bcast_nth:
  assumes "i < length ws"
  shows "load_decomp_bcast ws ! i =
           (if parallel (mpi (ws ! i))
            then (ws ! i)\<lparr>LSingVecs := LSingVecs (ws ! 0), singVals := singVals (ws ! 0),
                          RSingVecs := LSingVecs (ws ! 0)\<rparr>
            else ws ! i)"
proof -
  let ?g = "\<lambda>self :: ('a, 'b) BPOD. parallel (mpi self)"
  let ?w1 = "comm_bcast ?g LSingVecs (\<lambda>v s. s\<lparr>LSingVecs := v\<rparr>) ws"
  let ?w2 = "comm_bcast ?g singVals (\<lambda>v s. s\<lparr>singVals := v\<rparr>) ?w1"
  from assms have ne: "ws \<noteq> []" by auto
  then have ne1: "?w1 \<noteq> []"
    by (cases ws) (simp_all add: comm_bcast_def)
  have S1: "singVals (?w1 ! 0) = singVals (ws ! 0)"
    using ne by (rule comm_bcast_root) simp
  have "LSingVecs (?w2 ! 0) = LSingVecs (?w1 ! 0)"
    using ne1 by (rule comm_bcast_root) simp
  also have "\<dots> = LSingVecs (ws ! 0)"
    using ne by (cases ws) (simp_all add: comm_bcast_def)
  finally have L2: "LSingVecs (?w2 ! 0) = LSingVecs (ws ! 0)" .
  show ?thesis
    using assms
    by (simp add: load_decomp_bcast_def Let_def nth_comm_bcast length_comm_bcast S1 L2)
qed

lemma compute_decomp_bcast_nth:
  assumes "i < length ws"
  shows "compute_decomp_bcast ws ! i =
           (if parallel (mpi (ws ! i))
            then (ws ! i)\<lparr>LSingVecs := LSingVecs (ws ! 0), singVals := singVals (ws ! 0),
                          RSingVecs := RSingVecs (ws ! 0)\<rparr>
            else ws ! i)"
proof -
  let ?g = "\<lambda>self :: ('a, 'b) BPOD. parallel (mpi self)"
  let ?w1 = "comm_bcast ?g LSingVecs (\<lambda>v s. s\<lparr>LSingVecs := v\<rparr>) ws"
  let ?w2 = "comm_bcast ?g singVals (\<lambda>v s. s\<lparr>singVals := v\<rparr>) ?w1"
  from assms have ne: "ws \<noteq> []" by auto
  then have ne1: "?w1 \<noteq> []"
    by (cases ws) (simp_all add: comm_bcast_def)
  have S1: "singVals (?w1 ! 0) = singVals (ws ! 0)"
    using ne by (rule comm_bcast_root) simp
  have "RSingVecs (?w2 ! 0) = RSingVecs (?w1 ! 0)"
    using ne1 by (rule comm_bcast_root) simp
  also have "\<dots> = RSingVecs (ws ! 0)"
    using ne by (rule comm_bcast_root) simp
  finally have R2: "RSingVecs (?w2 ! 0) = RSingVecs (ws ! 0)" .
  show ?thesis
    using assms
    by (simp add: compute_decomp_bcast_def Let_def nth_comm_bcast length_comm_bcast S1 R2
        isParallel_def)
qed

lemma spmd_returns:
  assumes "spmd rs bcasts rest = Done out" and "list_all is_Return out"
  shows "list_all is_Return rs \<and> out = map rest (bcasts (map state_of rs))"
proof (cases "list_all is_Return rs")
  case True
  with assms show ?thesis by (simp add: spmd_def)
next
  case False
  then obtain r where r: "r \<in> set rs" "\<not> is_Return r"
    unfolding list_all_iff by blast
  from r(2) obtain e s where rs: "r = Raise e s" by (cases r) simp_all
  from False assms have out: "out = map (\<lambda>r. bind_res r rest) rs"
    by (simp add: spmd_def split: if_splits)
  from r(1) have "bind_res r rest \<in> set out"
    unfolding out by simp
  then have "Raise e s \<in> set out"
    by (simp add: rs)
  with assms(2) have "is_Return (Raise e s)"
    unfolding list_all_iff by blast
  then show ?thesis by simp
qed

lemma mpi_world_nth:
  assumes "mpi_world ws" and "i < length ws"
  shows "rank (mpi (ws ! i)) = i" and "parallel (mpi (ws ! i)) = (1 < length ws)"
proof -
  from assms(1) have "map (\<lambda>s. rank (mpi s)) ws = [0..<length ws]"
    by (simp add: mpi_world_def)
  then have "map (\<lambda>s. rank (mpi s)) ws ! i = [0..<length ws] ! i" by simp
  with assms(2) show "rank (mpi (ws ! i)) = i" by simp
  from assms show "parallel (mpi (ws ! i)) = (1 < length ws)"
    by (simp add: mpi_world_def list_all_length)
qed

lemma load_decomp_returns:
  assumes world: "mpi_world ws"
    and run: "load_decomp hankelMatPath LSingVecsPath singValsPath RSingVecsPath load_mat_arg ws
              = Done out"
    and ret: "list_all is_Return out"
  shows "\<exists>lm Lm Sm Rm.
           (case load_mat_arg of None \<Rightarrow> load_mat (ws ! 0) | Some f \<Rightarrow> Some f) = Some lm
         \<and> lm LSingVecsPath = Inr Lm \<and> lm singValsPath = Inr Sm \<and> lm RSingVecsPath = Inr Rm
         \<and> length out = length ws
         \<and> (\<forall>i<length ws.
               LSingVecs (state_of (out ! i)) = Some Lm
             \<and> singVals (state_of (out ! i)) = Some (N_squeeze (N_array Sm))
             \<and> RSingVecs (state_of (out ! i)) = (if 1 < length ws then Some Lm else Some Rm))"
proof -
  let ?local = "load_decomp_local hankelMatPath LSingVecsPath singValsPath RSingVecsPath load_mat_arg"
  define ss where "ss = map state_of (map ?local ws)"
  from run ret have all: "list_all is_Return (map ?local ws)"
    and out: "out = map Return (load_decomp_bcast ss)"
    using spmd_returns[of "map ?local ws" load_decomp_bcast Return out]
    by (simp_all add: load_decomp_def ss_def)
  have len: "length ss = length ws"
    by (simp add: ss_def)
  have ssi: "ss ! i = state_of (?local (ws ! i))" if "i < length ws" for i
    using that by (simp add: ss_def)
  from world have ne: "0 < length ws" by (simp add: mpi_world_def)
  have zero: "isRankZero (mpi (ws ! 0))"
    using mpi_world_nth(1)[OF world ne] by (simp add: isRankZero_def)
  from all ne have "is_Return (?local (ws ! 0))"
    by (simp add: list_all_length)
  then obtain s0 where s0: "?local (ws ! 0) = Return s0"
    by (cases "?local (ws ! 0)") simp_all
  from load_decomp_local_Return_coordinator[OF s0 zero]
  obtain lm Lm Sm Rm where
    lm: "(case load_mat_arg of None \<Rightarrow> load_mat (ws ! 0) | Some f \<Rightarrow> Some f) = Some lm"
    and loads: "lm LSingVecsPath = Inr Lm" "lm singValsPath = Inr Sm" "lm RSingVecsPath = Inr Rm"
    by blast
  have ss0: "LSingVecs (ss ! 0) = Some Lm" "singVals (ss ! 0) = Some (N_squeeze (N_array Sm))"
    "RSingVecs (ss ! 0) = Some Rm"
    using ne by (simp_all add: ssi load_decomp_local_coordinator[OF zero lm loads])
  have oi: "state_of (out ! i) = load_decomp_bcast ss ! i" if "i < length ws" for i
    using that by (simp add: out length_load_decomp_bcast len)
  have fields: "LSingVecs (state_of (out ! i)) = Some Lm
             \<and> singVals (state_of (out ! i)) = Some (N_squeeze (N_array Sm))
             \<and> RSingVecs (state_of (out ! i)) = (if 1 < length ws then Some Lm else Some Rm)"
    if i: "i < length ws" for i
  proof -
    have par: "parallel (mpi (ss ! i)) = (1 < length ws)"
      using mpi_world_nth(2)[OF world i] by (simp add: ssi[OF i] load_decomp_local_mpi)
    show ?thesis
    proof (cases "1 < length ws")
      case True
      with i par show ?thesis
        by (simp add: oi load_decomp_bcast_nth len ss0)
    next
      case False
      with i have "i = 0" by simp
      with False i par show ?thesis
        by (simp add: oi load_decomp_bcast_nth len ss0)
    qed
  qed
  have "length out = length ws"
    by (simp add: out length_load_decomp_bcast len)
  with lm loads fields show ?thesis by blast
qed

lemma compute_decomp_local_mpi:
  "mpi (state_of (compute_decomp_local svd directSnapPaths_arg adjointSnapPaths_arg self)) = mpi self"
  by (auto simp: compute_decomp_local_def Let_def called_def
      split: option.splits sum.splits prod.splits)

lemma compute_decomp_local_Return_coordinator:
  assumes "compute_decomp_local svd directSnapPaths_arg adjointSnapPaths_arg self = Return s"
    and "isRankZero (mpi self)"
  shows "\<exists>H L sv R. hankelMat s = Some H \<and> svd H = Inr (L, sv, R)
           \<and> LSingVecs s = Some L \<and> singVals s = Some sv \<and> RSingVecs s = Some R"
  using assms
  by (auto simp: compute_decomp_local_def Let_def called_def
      split: option.splits sum.splits prod.splits)

lemma compute_decomp_returns:
  assumes world: "mpi_world ws"
    and run: "compute_decomp svd hankelMatPath LSingVecsPath singValsPath RSingVecsPath
                directSnapPaths_arg adjointSnapPaths_arg ws = Done out"
    and ret: "list_all is_Return out"
  shows "\<exists>H L sv R.
           hankelMat (state_of (out ! 0)) = Some H \<and> svd H = Inr (L, sv, R)
         \<and> length out = length ws
         \<and> (\<forall>i<length ws.
               LSingVecs (state_of (out ! i)) = Some L
             \<and> singVals (state_of (out ! i)) = Some sv
             \<and> RSingVecs (state_of (out ! i)) = Some R)"
proof -
  let ?local = "compute_decomp_local svd directSnapPaths_arg adjointSnapPaths_arg"
  let ?save = "save_decomp hankelMatPath LSingVecsPath singValsPath RSingVecsPath"
  define ss where "ss = map state_of (map ?local ws)"
  from run ret have all: "list_all is_Return (map ?local ws)"
    and out: "out = map ?save (compute_decomp_bcast ss)"
    using spmd_returns[of "map ?local ws" compute_decomp_bcast ?save out]
    by (simp_all add: compute_decomp_def ss_def)
  have len: "length ss = length ws"
    by (simp add: ss_def)
  have ssi: "ss ! i = state_of (?local (ws ! i))" if "i < length ws" for i
    using that by (simp add: ss_def)
  from world have ne: "0 < length ws" by (simp add: mpi_world_def)
  have zero: "isRankZero (mpi (ws ! 0))"
    using mpi_world_nth(1)[OF world ne] by (simp add: isRankZero_def)
  from all ne have "is_Return (?local (ws ! 0))"
    by (simp add: list_all_length)
  then obtain s0 where s0: "?local (ws ! 0) = Return s0"
    by (cases "?local (ws ! 0)") simp_all
  from compute_decomp_local_Return_coordinator[OF s0 zero]
  obtain H L sv R where H: "hankelMat s0 = Some H" "svd H = Inr (L, sv, R)"
    and s0': "LSingVecs s0 = Some L" "singVals s0 = Some sv" "RSingVecs s0 = Some R"
    by blast
  have ss0: "hankelMat (ss ! 0) = Some H" "LSingVecs (ss ! 0) = Some L"
    "singVals (ss ! 0) = Some sv" "RSingVecs (ss ! 0) = Some R"
    using ne H(1) s0' by (simp_all add: ssi s0)
  have oi: "state_of (out ! i) = state_of (?save (compute_decomp_bcast ss ! i))"
    if "i < length ws" for i
    using that by (simp add: out length_compute_decomp_bcast len)
  have fields: "LSingVecs (state_of (out ! i)) = Some L
             \<and> singVals (state_of (out ! i)) = Some sv
             \<and> RSingVecs (state_of (out ! i)) = Some R"
    if i: "i < length ws" for i
  proof -
    have par: "parallel (mpi (ss ! i)) = (1 < length ws)"
      using mpi_world_nth(2)[OF world i] by (simp add: ssi[OF i] compute_decomp_local_mpi)
    show ?thesis
    proof (cases "1 < length ws")
      case True
      with i par show ?thesis
        by (simp add: oi save_decomp_frame compute_decomp_bcast_nth len ss0)
    next
      case False
      with i have "i = 0" by simp
      with False i par show ?thesis
        by (simp add: oi save_decomp_frame compute_decomp_bcast_nth len ss0)
    qed
  qed
  have "hankelMat (state_of (out ! 0)) = Some H"
    using ne by (simp add: oi save_decomp_frame compute_decomp_bcast_frame len ss0)
  moreover have "length out = length ws"
    by (simp add: out length_compute_decomp_bcast len)
  ultimately show ?thesis
    using H(2) fields by blast
qed

subsection \<open>Facts about mode reconstruction\<close>

lemma N_squeeze_flat:
  assumes "shape sv = [n] \<or> shape sv = [1, n] \<or> shape sv = [n, 1]" and "n \<noteq> 1"
  shows "N_squeeze (N_array sv) = sv\<lparr>shape := [n]\<rparr>"
  using assms by (auto simp: N_squeeze_def N_array_def)

lemma ndarray_shape_id: "shape sv = sh \<Longrightarrow> sv\<lparr>shape := sh\<rparr> = sv"
  by (cases sv) simp

lemma power_elems_sel:
  "shape (power_elems pw a) = shape a"
  "data (power_elems pw a) = map pw (data a)"
  by (simp_all add: power_elems_def)

lemma buildCoeffMat_flat:
  fixes V :: "'a::semiring_0 ndarray"
  assumes V: "shape V = [r, n]" and sv: "shape sv = [n]" and len: "length (data sv) = n"
  shows "buildCoeffMat pw V sv = Inr (matrix r n (\<lambda>i j. entry V i j * pw (data sv ! j)))"
proof -
  have D: "N_diag (power_elems pw sv)
           = Inr (matrix n n (\<lambda>i j. if i = j then map pw (data sv) ! i else 0))"
    using sv by (simp add: N_diag_def power_elems_sel cong: if_cong)
  have "mat_mul V (matrix n n (\<lambda>i j. if i = j then map pw (data sv) ! i else 0))
        = Inr (matrix r n (\<lambda>i j. data V ! (i * n + j) * map pw (data sv) ! j))"
    using V len by (intro mat_mul_diag) simp_all
  moreover have "matrix r n (\<lambda>i j. data V ! (i * n + j) * map pw (data sv) ! j)
                 = matrix r n (\<lambda>i j. entry V i j * pw (data sv ! j))"
    unfolding matrix_def using V len
    by (simp add: entry_def) (rule tabulate2_cong, simp)
  ultimately show ?thesis
    using V by (simp add: buildCoeffMat_def D N_mat_def matrix_def)
qed

lemma compute_direct_modes_coeff:
  fixes self :: "('a::semiring_0, 'f) BPOD"
  assumes "RSingVecs self = Some R" and "singVals self = Some sv"
    and "shape R = [r, n]" and "shape sv = [n]" and "length (data sv) = n"
  shows "compute_direct_modes pw modeNumList modePath indexFrom directSnapPaths_arg self =
           Return (called (ComputeModes modeNumList modePath
                     (case directSnapPaths_arg of None \<Rightarrow> directSnapPaths self | Some d \<Rightarrow> Some d)
                     (matrix r n (\<lambda>i j. entry R i j * pw (data sv ! j))) indexFrom)
                   (case directSnapPaths_arg of None \<Rightarrow> self
                    | Some d \<Rightarrow> self\<lparr>directSnapPaths := Some d\<rparr>))"
  using assms
  by (simp add: compute_direct_modes_def buildCoeffMat_flat[of R r n sv pw] Let_def
      split: option.splits)

lemma compute_adjoint_modes_coeff:
  fixes self :: "('a::semiring_0, 'f) BPOD"
  assumes "LSingVecs self = Some L" and "singVals self = Some sv"
    and "shape L = [r, n]" and "shape sv = [n]" and "length (data sv) = n" and "n \<noteq> 1"
  shows "compute_adjoint_modes pw modeNumList modePath indexFrom adjointSnapPaths_arg self =
           Return (called (ComputeModes modeNumList modePath
                     (case adjointSnapPaths_arg of None \<Rightarrow> adjointSnapPaths self | Some a \<Rightarrow> Some a)
                     (matrix r n (\<lambda>i j. entry L i j * pw (data sv ! j))) indexFrom)
                   (case adjointSnapPaths_arg of None \<Rightarrow> self
                    | Some a \<Rightarrow> self\<lparr>adjointSnapPaths := Some a\<rparr>))"
proof -
  have sq: "N_squeeze (N_array sv) = sv"
    using assms(4,6) by (simp add: N_squeeze_flat ndarray_shape_id)
  have same: "s\<lparr>singVals := Some sv\<rparr> = s" if "singVals s = Some sv" for s :: "('a, 'f) BPOD"
    using that by (cases s) simp
  show ?thesis
    using assms
    by (simp add: compute_adjoint_modes_def sq buildCoeffMat_flat[of L r n sv pw] Let_def same
        split: option.splits)
qed

lemma inv_sqrt_4: "inv_sqrt 4 = 1 / 2"
  by (simp add: inv_sqrt_def powr_minus powr_half_sqrt inverse_eq_divide)



lemma compute_direct_modes_unpopulated:
  fixes self :: "('a::semiring_0, 'f) BPOD"
  assumes "RSingVecs self = None \<or> singVals self = None"
  shows "compute_direct_modes pw modeNumList modePath indexFrom directSnapPaths_arg self =
           Raise (UndefinedError (if RSingVecs self = None then ''Must define self.RSingVecs''
                                  else ''Must define self.singVals'')) self"
  using assms by (auto simp: compute_direct_modes_def split: option.splits)

lemma compute_adjoint_modes_unpopulated:
  fixes self :: "('a::semiring_0, 'f) BPOD"
  assumes "LSingVecs self = None \<or> singVals self = None"
  shows "compute_adjoint_modes pw modeNumList modePath indexFrom adjointSnapPaths_arg self =
           Raise (NameError ''UndefinedError'') self"
  using assms by (auto simp: compute_adjoint_modes_def split: option.splits)

subsection \<open>The example runs\<close>

lemmas load_decomp_unfold = load_decomp_def spmd_def load_decomp_local_def load_into_def called_def
  load_decomp_bcast_def comm_bcast_def Let_def worker_def isRankZero_def example_load_mat_def
  N_squeeze_def N_array_def

lemma example_compute_decomp:
  "compute_decomp example_svd None None (Some ''singVals.txt'') None
     (Some [''d1'', ''d2'']) (Some [''a1'', ''a2'', ''a3'']) [worker 0 True, worker 1 True]
   = Done [Return ((worker 0 True)\<lparr>directSnapPaths := Some [''d1'', ''d2''],
                      adjointSnapPaths := Some [''a1'', ''a2'', ''a3''],
                      LSingVecs := Some example_L, singVals := Some example_S,
                      RSingVecs := Some example_R, hankelMat := Some example_H,
                      calls := [InnerProductMatrix [''a1'', ''a2'', ''a3''] [''d1'', ''d2''],
                                SaveMat ''save_mat_text'' (Some example_S) ''singVals.txt'']\<rparr>),
           Return ((worker 1 True)\<lparr>directSnapPaths := Some [''d1'', ''d2''],
                      adjointSnapPaths := Some [''a1'', ''a2'', ''a3''],
                      LSingVecs := Some example_L, singVals := Some example_S,
                      RSingVecs := Some example_R, hankelMat := Some example_H,
                      calls := [InnerProductMatrix [''a1'', ''a2'', ''a3''] [''d1'', ''d2'']]\<rparr>)]"
  by (simp add: compute_decomp_def spmd_def compute_decomp_local_def compute_decomp_bcast_def
      comm_bcast_def Let_def called_def compute_inner_product_matrix_def matrix_def tabulate2_def
      upt_rec example_field_def dot_def worker_def isRankZero_def isParallel_def example_svd_def
      example_H_def save_decomp_def save_if_given_def call_save_mat_def)

lemma example_load_decomp:
  "load_decomp None (Some ''LSingVecs.txt'') (Some ''singVals.txt'') (Some ''RSingVecs.txt'') None
     [worker 0 True, worker 1 True]
   = Done [Return ((worker 0 True)\<lparr>LSingVecs := Some example_L, singVals := Some example_S,
                      RSingVecs := Some example_L,
                      calls := [LoadMat (Some ''LSingVecs.txt''), LoadMat (Some ''singVals.txt''),
                                LoadMat (Some ''RSingVecs.txt'')]\<rparr>),
           Return ((worker 1 True)\<lparr>LSingVecs := Some example_L, singVals := Some example_S,
                      RSingVecs := Some example_L\<rparr>)]"
  by (simp add: load_decomp_unfold example_S_def)

section \<open>The claims\<close>

text \<open>
  C1. Whatever the two snapshot path lists, of \<open>m\<close> direct and \<open>n\<close> adjoint snapshots,
  given with the call or stored before it: on every worker \<^verbatim>\<open>compute_decomp\<close> invokes the
  inner-product matrix builder with the adjoint list as rows and the direct list as
  columns, and stores its result as the Hankel matrix, which has shape \<open>(n, m)\<close> and
  whose entry \<open>(a, d)\<close> is the inner product of adjoint snapshot \<open>a\<close> with direct snapshot
  \<open>d\<close>. The builder is the one modelled from the specification.
\<close>

theorem compute_decomp_hankel:
  assumes "i < length ws"
    and "directSnapPaths_arg = Some dps
           \<or> directSnapPaths_arg = None \<and> directSnapPaths (ws ! i) = Some dps"
    and "adjointSnapPaths_arg = Some aps
           \<or> adjointSnapPaths_arg = None \<and> adjointSnapPaths (ws ! i) = Some aps"
  shows "let s' = state_of (results (compute_decomp svd hankelMatPath LSingVecsPath singValsPath
                     RSingVecsPath directSnapPaths_arg adjointSnapPaths_arg ws) ! i)
         in \<exists>H later.
              hankelMat s' = Some H
            \<and> calls s' = calls (ws ! i) @ InnerProductMatrix aps dps # later
            \<and> H = compute_inner_product_matrix (ws ! i) aps dps
            \<and> shape H = [length aps, length dps]
            \<and> (\<forall>a<length aps. \<forall>d<length dps.
                  entry H a d = inner_product (ws ! i) (load_field (ws ! i) (aps ! a))
                                  (load_field (ws ! i) (dps ! d)))"
proof -
  let ?H = "compute_inner_product_matrix (ws ! i) aps dps"
  let ?rs = "map (compute_decomp_local svd directSnapPaths_arg adjointSnapPaths_arg) ws"
  let ?run = "spmd ?rs compute_decomp_bcast
                (save_decomp hankelMatPath LSingVecsPath singValsPath RSingVecsPath)"
  let ?Q = "\<lambda>s. hankelMat s = Some ?H
              \<and> (\<exists>later. calls s = calls (ws ! i) @ InnerProductMatrix aps dps # later)"
  have start: "?Q (state_of (?rs ! i))"
    using assms by (simp add: compute_decomp_local_hankel)
  have rest: "?Q (state_of (save_decomp hankelMatPath LSingVecsPath singValsPath RSingVecsPath s))"
    if "?Q s" for s :: "('a, 'b) BPOD"
  proof -
    obtain more where "calls (state_of (save_decomp hankelMatPath LSingVecsPath singValsPath
                          RSingVecsPath s)) = calls s @ more"
      using save_decomp_calls_extend by blast
    with that show ?thesis by (auto simp: save_decomp_frame)
  qed
  have "?Q (state_of (results ?run ! i))"
    using assms(1) start
    by (intro results_spmd_invariant[where Q = ?Q and rs = ?rs])
       (simp_all add: compute_decomp_bcast_frame length_compute_decomp_bcast rest)
  moreover have "shape ?H = [length aps, length dps]"
    by (simp add: compute_inner_product_matrix_def matrix_def)
  moreover have "\<forall>a<length aps. \<forall>d<length dps.
                 entry ?H a d = inner_product (ws ! i) (load_field (ws ! i) (aps ! a))
                                 (load_field (ws ! i) (dps ! d))"
    by (simp add: compute_inner_product_matrix_def entry_matrix)
  ultimately show ?thesis
    by (simp add: compute_decomp_def Let_def)
qed

theorem compute_decomp_hankel_witness:
  "0 < length [worker 0 False]
   \<and> (let s' = state_of (results (compute_decomp example_svd (Some ''hankelMat.txt'') None None None
                     (Some [''d1'', ''d2'']) (Some [''a1'', ''a2'', ''a3'']) [worker 0 False]) ! 0)
      in hankelMat s' = Some example_H
       \<and> shape example_H = [3, 2]
       \<and> entry example_H 0 0 = dot (example_field ''a1'') (example_field ''d1'')
       \<and> entry example_H 2 1 = dot (example_field ''a3'') (example_field ''d2'')
       \<and> (\<exists>later. calls s' = InnerProductMatrix [''a1'', ''a2'', ''a3''] [''d1'', ''d2''] # later))"
proof -
  have H: "compute_inner_product_matrix (worker 0 False) [''a1'', ''a2'', ''a3''] [''d1'', ''d2'']
           = example_H"
    by (simp add: compute_inner_product_matrix_def worker_def matrix_def tabulate2_def
        example_field_def dot_def example_H_def upt_rec)
  have c: "calls (worker 0 False) = []"
    by (simp add: worker_def)
  let ?s = "state_of (results (compute_decomp example_svd (Some ''hankelMat.txt'') None None None
                     (Some [''d1'', ''d2'']) (Some [''a1'', ''a2'', ''a3'']) [worker 0 False]) ! 0)"
  have "hankelMat ?s = Some example_H
        \<and> (\<exists>later. calls ?s = InnerProductMatrix [''a1'', ''a2'', ''a3''] [''d1'', ''d2''] # later)"
    using compute_decomp_hankel[of 0 "[worker 0 False]" "Some [''d1'', ''d2'']" "[''d1'', ''d2'']"
        "Some [''a1'', ''a2'', ''a3'']" "[''a1'', ''a2'', ''a3'']" example_svd
        "Some ''hankelMat.txt''" None None None]
    by (simp add: H c Let_def)
  moreover have "shape example_H = [3, 2]"
    by (simp add: example_H_def)
  moreover have "entry example_H 0 0 = dot (example_field ''a1'') (example_field ''d1'')"
    and "entry example_H 2 1 = dot (example_field ''a3'') (example_field ''d2'')"
    by (simp_all add: example_H_def entry_def example_field_def dot_def)
  ultimately show ?thesis
    by (simp add: Let_def)
qed

text \<open>
  C5, as stated, fails: an empty snapshot path list is not refused. With an empty direct
  list and one adjoint snapshot the builder is invoked and its matrix is stored; the call
  stops only later, in the factorization.
\<close>

theorem compute_decomp_empty_counterexample:
  "results (compute_decomp example_svd None None None None (Some []) (Some [''a1''])
      [worker 0 False])
   = [Raise (LinAlgError ''SVD did not converge'')
        ((worker 0 False)\<lparr>directSnapPaths := Some [], adjointSnapPaths := Some [''a1''],
            hankelMat := Some \<lparr>shape = [1, 0], data = []\<rparr>,
            calls := [InnerProductMatrix [''a1''] []]\<rparr>)]"
  by (simp add: compute_decomp_def spmd_def compute_decomp_local_def Let_def called_def
      compute_inner_product_matrix_def matrix_def tabulate2_def worker_def isRankZero_def
      example_svd_def example_H_def)

text \<open>
  C5, amended. When, once the arguments of the call are applied, the direct or the
  adjoint snapshot path list is unset, \<^verbatim>\<open>compute_decomp\<close> fails on that worker with
  \<^verbatim>\<open>util.UndefinedError\<close>, the direct list being checked first, and it fails before the
  inner-product matrix is computed: no collaborator has been called and the stored
  decomposition is as it was.
\<close>

theorem compute_decomp_unset_paths:
  assumes "i < length ws"
    and "directSnapPaths_arg = None \<and> directSnapPaths (ws ! i) = None
         \<or> adjointSnapPaths_arg = None \<and> adjointSnapPaths (ws ! i) = None"
  shows "\<exists>s'. results (compute_decomp svd hankelMatPath LSingVecsPath singValsPath RSingVecsPath
                        directSnapPaths_arg adjointSnapPaths_arg ws) ! i =
            Raise (UndefinedError
                    (if directSnapPaths_arg = None \<and> directSnapPaths (ws ! i) = None
                     then ''directSnapPaths is not given''
                     else ''adjointSnapPaths is not given'')) s'
          \<and> calls s' = calls (ws ! i) \<and> hankelMat s' = hankelMat (ws ! i)
          \<and> LSingVecs s' = LSingVecs (ws ! i) \<and> singVals s' = singVals (ws ! i)
          \<and> RSingVecs s' = RSingVecs (ws ! i)"
proof -
  let ?rs = "map (compute_decomp_local svd directSnapPaths_arg adjointSnapPaths_arg) ws"
  let ?e = "UndefinedError
                    (if directSnapPaths_arg = None \<and> directSnapPaths (ws ! i) = None
                     then ''directSnapPaths is not given''
                     else ''adjointSnapPaths is not given'')"
  obtain s' where s': "compute_decomp_local svd directSnapPaths_arg adjointSnapPaths_arg (ws ! i)
                         = Raise ?e s'"
    and frame: "calls s' = calls (ws ! i)" "hankelMat s' = hankelMat (ws ! i)"
      "LSingVecs s' = LSingVecs (ws ! i)" "singVals s' = singVals (ws ! i)"
      "RSingVecs s' = RSingVecs (ws ! i)"
    using compute_decomp_local_unset[OF assms(2), of svd] by blast
  have "?rs ! i = Raise ?e s'"
    using assms(1) s' by simp
  then have "results (spmd ?rs compute_decomp_bcast
                (save_decomp hankelMatPath LSingVecsPath singValsPath RSingVecsPath)) ! i
             = Raise ?e s'"
    using assms(1) by (intro results_spmd_Raise) simp_all
  with frame show ?thesis
    by (simp add: compute_decomp_def)
qed

theorem compute_decomp_unset_paths_witness:
  "1 < length [worker 0 True, worker 1 True]
   \<and> directSnapPaths ([worker 0 True, worker 1 True] ! 1) = None
   \<and> (\<exists>s'. results (compute_decomp example_svd None None None None
                        None (Some [''a1'', ''a2'', ''a3'']) [worker 0 True, worker 1 True]) ! 1 =
            Raise (UndefinedError ''directSnapPaths is not given'') s'
          \<and> calls s' = [] \<and> hankelMat s' = None)"
  using compute_decomp_unset_paths[of 1 "[worker 0 True, worker 1 True]" None
      "Some [''a1'', ''a2'', ''a3'']" example_svd None None None None]
  by (simp add: worker_def) blast

text \<open>
  C7. \<^verbatim>\<open>save_decomp\<close> writes on the coordinating worker only, and there it writes each of
  the four artifacts exactly when its path is given, each with its own path: the Hankel
  matrix, the left singular vectors, the right singular vectors and the singular values,
  in this order. Any subset of the four may so be saved. With a matrix writer configured
  the call returns on every worker.
\<close>

theorem save_decomp_writes:
  "calls (state_of (save_decomp hankelMatPath LSingVecsPath singValsPath RSingVecsPath self)) =
     calls self @
       (case save_mat self of
          None \<Rightarrow> []
        | Some f \<Rightarrow>
            if isRankZero (mpi self) then
              (case hankelMatPath of None \<Rightarrow> [] | Some p \<Rightarrow> [SaveMat f (hankelMat self) p]) @
              (case LSingVecsPath of None \<Rightarrow> [] | Some p \<Rightarrow> [SaveMat f (LSingVecs self) p]) @
              (case RSingVecsPath of None \<Rightarrow> [] | Some p \<Rightarrow> [SaveMat f (RSingVecs self) p]) @
              (case singValsPath of None \<Rightarrow> [] | Some p \<Rightarrow> [SaveMat f (singVals self) p])
            else [])
   \<and> (save_mat self \<noteq> None \<longrightarrow>
        is_Return (save_decomp hankelMatPath LSingVecsPath singValsPath RSingVecsPath self))"
proof (cases "save_mat self")
  case None
  then show ?thesis by (simp add: save_decomp_def)
next
  case (Some f)
  then show ?thesis by (simp add: save_decomp_configured)
qed

theorem save_decomp_writes_witness:
  "save_mat ((worker 0 True)\<lparr>singVals := Some example_S\<rparr>) \<noteq> None
   \<and> calls (state_of (save_decomp None None (Some ''singVals.txt'') None
               ((worker 0 True)\<lparr>singVals := Some example_S\<rparr>)))
       = [SaveMat ''save_mat_text'' (Some example_S) ''singVals.txt'']
   \<and> is_Return (save_decomp None None (Some ''singVals.txt'') None
               ((worker 0 True)\<lparr>singVals := Some example_S\<rparr>))
   \<and> calls (state_of (save_decomp None None (Some ''singVals.txt'') None
               ((worker 1 True)\<lparr>singVals := Some example_S\<rparr>))) = []"
  using save_decomp_writes[of None None "Some ''singVals.txt''" None
          "(worker 0 True)\<lparr>singVals := Some example_S\<rparr>"]
        save_decomp_writes[of None None "Some ''singVals.txt''" None
          "(worker 1 True)\<lparr>singVals := Some example_S\<rparr>"]
  by (simp add: worker_def isRankZero_def)

text \<open>
  C9, as stated, fails: with no matrix writer configured, a worker that is not the
  coordinator returns from \<^verbatim>\<open>save_decomp\<close> without an exception.
\<close>

theorem save_decomp_unconfigured_counterexample:
  "save_mat ((worker 1 True)\<lparr>save_mat := None\<rparr>) = None
   \<and> save_decomp (Some ''hankelMat.txt'') (Some ''LSingVecs.txt'') (Some ''singVals.txt'')
        (Some ''RSingVecs.txt'') ((worker 1 True)\<lparr>save_mat := None\<rparr>)
      = Return ((worker 1 True)\<lparr>save_mat := None\<rparr>)"
  by (simp add: save_decomp_def worker_def isRankZero_def)

text \<open>
  C9, amended. With no matrix writer configured, \<^verbatim>\<open>save_decomp\<close> fails with
  \<^verbatim>\<open>util.UndefinedError\<close> on the coordinating worker, before anything is written; on
  every other worker it returns, and nothing is written there either.
\<close>

theorem save_decomp_unconfigured:
  assumes "save_mat self = None"
  shows "save_decomp hankelMatPath LSingVecsPath singValsPath RSingVecsPath self =
           (if isRankZero (mpi self)
            then Raise (UndefinedError ''save_mat is undefined, cant save'') self
            else Return self)"
  using assms by (simp add: save_decomp_def)

theorem save_decomp_unconfigured_witness:
  "save_mat ((worker 0 True)\<lparr>save_mat := None\<rparr>) = None
   \<and> save_decomp (Some ''hankelMat.txt'') None None None ((worker 0 True)\<lparr>save_mat := None\<rparr>)
      = Raise (UndefinedError ''save_mat is undefined, cant save'')
          ((worker 0 True)\<lparr>save_mat := None\<rparr>)"
  using save_decomp_unconfigured[of "(worker 0 True)\<lparr>save_mat := None\<rparr>"
          "Some ''hankelMat.txt''" None None None]
  by (simp add: worker_def isRankZero_def)

text \<open>
  C2 fails on \<^verbatim>\<open>load_decomp\<close>. In a run of two workers the coordinator loads the left
  singular vectors, the singular values and the right singular vectors, and every worker
  ends with the same three members; but line 72 broadcasts \<^verbatim>\<open>self.LSingVecs\<close> a second
  time and assigns it to \<^verbatim>\<open>self.RSingVecs\<close>, so what every worker, the coordinator
  included, holds as right singular vectors is the left ones: the matrix read from
  \<^verbatim>\<open>RSingVecs.txt\<close> is lost.
\<close>

theorem load_decomp_broadcasts_L_for_R:
  "load_decomp None (Some ''LSingVecs.txt'') (Some ''singVals.txt'') (Some ''RSingVecs.txt'') None
     [worker 0 True, worker 1 True]
   = Done [Return ((worker 0 True)\<lparr>LSingVecs := Some example_L, singVals := Some example_S,
                      RSingVecs := Some example_L,
                      calls := [LoadMat (Some ''LSingVecs.txt''), LoadMat (Some ''singVals.txt''),
                                LoadMat (Some ''RSingVecs.txt'')]\<rparr>),
           Return ((worker 1 True)\<lparr>LSingVecs := Some example_L, singVals := Some example_S,
                      RSingVecs := Some example_L\<rparr>)]
   \<and> example_load_mat (Some ''RSingVecs.txt'') = Inr example_R
   \<and> example_R \<noteq> example_L"
  by (simp add: load_decomp_unfold example_S_def example_L_def example_R_def)

text \<open>
  C3 fails on \<^verbatim>\<open>compute_adjoint_modes\<close> when there is a single singular value. Line 182
  squeezes the sequence of one value into a scalar, of which \<^verbatim>\<open>N.diag\<close> has no diagonal
  matrix: the call raises \<^verbatim>\<open>ValueError\<close> and nothing is delegated to the builder.
  \<^verbatim>\<open>compute_direct_modes\<close>, which does not squeeze, delegates the coefficient matrix
  \<^verbatim>\<open>R * diag(singVals ** -0.5) = [[1/2]]\<close> on the same engine.
\<close>

theorem compute_adjoint_modes_single_value:
  "compute_adjoint_modes inv_sqrt [1] ''mode_%d.txt'' 1 None single_value
     = Raise (ValueError ''Input must be 1- or 2-d.'')
         (single_value\<lparr>singVals := Some \<lparr>shape = [], data = [4]\<rparr>\<rparr>)
   \<and> compute_direct_modes inv_sqrt [1] ''mode_%d.txt'' 1 None single_value
     = Return (single_value\<lparr>calls := [ComputeModes [1] ''mode_%d.txt'' (Some [''d1''])
                                         \<lparr>shape = [1, 1], data = [1 / 2]\<rparr> 1]\<rparr>)"
  by (simp add: compute_adjoint_modes_def compute_direct_modes_def single_value_def worker_def
      buildCoeffMat_def N_mat_def N_diag_def N_squeeze_def N_array_def power_elems_def
      mat_mul_def matrix_def tabulate2_def called_def inv_sqrt_4)

text \<open>
  C4 fails on \<^verbatim>\<open>compute_adjoint_modes\<close>. On an engine with no decomposition both methods
  stop before any reconstruction work, the engine unchanged; \<^verbatim>\<open>compute_direct_modes\<close>
  raises \<^verbatim>\<open>util.UndefinedError\<close>, but \<^verbatim>\<open>compute_adjoint_modes\<close> names the exception
  \<^verbatim>\<open>UndefinedError\<close>, which is not bound in the module, and raises \<^verbatim>\<open>NameError\<close>.
\<close>

theorem compute_adjoint_modes_unset_NameError:
  "compute_adjoint_modes inv_sqrt [1] ''mode_%d.txt'' 1 None (worker 0 False)
     = Raise (NameError ''UndefinedError'') (worker 0 False)
   \<and> compute_direct_modes inv_sqrt [1] ''mode_%d.txt'' 1 None (worker 0 False)
     = Raise (UndefinedError ''Must define self.RSingVecs'') (worker 0 False)"
  by (simp add: compute_adjoint_modes_def compute_direct_modes_def worker_def)

text \<open>
  C6 fails on the code. \<^verbatim>\<open>load_decomp\<close> takes \<^verbatim>\<open>hankelMatPath\<close> and never uses it: with
  all four paths given and all four files readable, the call returns with the Hankel
  matrix still unset, the reader having been called on the other three paths only. And
  no path is tested against \<^verbatim>\<open>None\<close>: with \<^verbatim>\<open>singValsPath\<close> unset the reader is called
  on the unset path all the same, and as it refuses it the call stops there, before the
  right singular vectors, whose path is given, are read. \<^verbatim>\<open>save_decomp\<close> tests each of
  the four paths and handles the Hankel matrix.
\<close>

theorem load_decomp_ignores_hankelMatPath:
  "example_load_mat (Some ''hankelMat.txt'') = Inr example_H
   \<and> load_decomp (Some ''hankelMat.txt'') (Some ''LSingVecs.txt'') (Some ''singVals.txt'')
       (Some ''RSingVecs.txt'') None [worker 0 False]
     = Done [Return ((worker 0 False)\<lparr>LSingVecs := Some example_L, singVals := Some example_S,
                      RSingVecs := Some example_R, hankelMat := None,
                      calls := [LoadMat (Some ''LSingVecs.txt''), LoadMat (Some ''singVals.txt''),
                                LoadMat (Some ''RSingVecs.txt'')]\<rparr>)]
   \<and> load_decomp None (Some ''LSingVecs.txt'') None (Some ''RSingVecs.txt'') None
       [worker 0 False]
     = Done [Raise (IOError ''no path'')
               ((worker 0 False)\<lparr>LSingVecs := Some example_L, singVals := None,
                      RSingVecs := None,
                      calls := [LoadMat (Some ''LSingVecs.txt''), LoadMat None]\<rparr>)]"
  by (simp add: load_decomp_unfold example_S_def)

text \<open>
  C8 fails on \<^verbatim>\<open>load_decomp\<close> when there is a single singular value. Persisted as a
  matrix of one row and one column, it is squeezed by line 63 into a scalar, an array of
  no axis, and that is what is stored: not a flat sequence of one value. On the engine so
  loaded \<^verbatim>\<open>compute_direct_modes\<close> fails in \<^verbatim>\<open>N.diag\<close>. It is the squeeze that
  \<^verbatim>\<open>compute_adjoint_modes\<close> applies in line 182.
\<close>

theorem load_decomp_single_value_scalar:
  "load_decomp None (Some ''LSingVecs.txt'') (Some ''singVals.txt'') (Some ''RSingVecs.txt'')
       (Some single_value_load_mat) [worker 0 False]
     = Done [Return ((worker 0 False)\<lparr>load_mat := Some single_value_load_mat,
                      LSingVecs := Some \<lparr>shape = [1, 1], data = [1]\<rparr>,
                      singVals := Some \<lparr>shape = [], data = [4]\<rparr>,
                      RSingVecs := Some \<lparr>shape = [1, 1], data = [1]\<rparr>,
                      calls := [LoadMat (Some ''LSingVecs.txt''), LoadMat (Some ''singVals.txt''),
                                LoadMat (Some ''RSingVecs.txt'')]\<rparr>)]
   \<and> ndim \<lparr>shape = [], data = [4 :: real]\<rparr> = 0
   \<and> raised (compute_direct_modes inv_sqrt [1] ''mode_%d.txt'' 1 (Some [''d1''])
        ((worker 0 False)\<lparr>load_mat := Some single_value_load_mat,
                      LSingVecs := Some \<lparr>shape = [1, 1], data = [1]\<rparr>,
                      singVals := Some \<lparr>shape = [], data = [4]\<rparr>,
                      RSingVecs := Some \<lparr>shape = [1, 1], data = [1]\<rparr>,
                      calls := [LoadMat (Some ''LSingVecs.txt''), LoadMat (Some ''singVals.txt''),
                                LoadMat (Some ''RSingVecs.txt'')]\<rparr>))
     = Some (ValueError ''Input must be 1- or 2-d.'')"
  by (simp add: load_decomp_def spmd_def load_decomp_local_def load_into_def called_def
      load_decomp_bcast_def comm_bcast_def Let_def worker_def isRankZero_def
      single_value_load_mat_def N_squeeze_def N_array_def ndim_def
      compute_direct_modes_def buildCoeffMat_def N_mat_def N_diag_def power_elems_def)




end
